theory Spec2Isabelle
  imports Complex_Main "HOL-Library.Word"
begin

section \<open>QuickPID 3.1.1: the controller object and its operations\<close>

text \<open>
  The embedding follows \<^verbatim>\<open>src/QuickPID.cpp\<close> and the second class declaration of
  \<^verbatim>\<open>src/QuickPID.h\<close> (the one with \<^verbatim>\<open>tGetTimeMicros\<close>, which the \<^verbatim>\<open>.cpp\<close> file uses).

  \<^item> A \<^verbatim>\<open>float\<close> is modelled by the real number it denotes: rounding, infinities and
    NaN are outside the model, and a division is only meaningful for a non-zero divisor.
  \<^item> A \<^verbatim>\<open>uint32_t\<close> is a \<open>32 word\<close>; subtraction wraps and comparison is unsigned.
  \<^item> The three \<^verbatim>\<open>float*\<close> members are addresses into a store of cells that the caller
    owns, so aliasing between them is possible exactly as in the program.
  \<^item> The clock \<^verbatim>\<open>tGetTimeMicros\<close> is a nullable function pointer: an optional function
    that reads the low 32 bits of the microsecond counter off the outside world \<open>'w\<close>
    at the moment of the call.
  \<^item> Members and locals that the program leaves uninitialised hold an indeterminate
    value, which the model takes as a parameter.
\<close>

subsection \<open>Macros of the header\<close>

definition MIN_macro :: "real \<Rightarrow> real \<Rightarrow> real" where
  "MIN_macro a b = (if a < b then a else b)"

definition MAX_macro :: "real \<Rightarrow> real \<Rightarrow> real" where
  "MAX_macro a b = (if a < b then b else a)"

definition CONSTRAIN :: "real \<Rightarrow> real \<Rightarrow> real \<Rightarrow> real" where
  "CONSTRAIN x a b = MIN_macro (MAX_macro x a) b"

subsection \<open>Enumerations and the class members\<close>

datatype Control = manual | automatic | timer
datatype Action = direct | reverse
datatype pMode = pOnError | pOnMeas | pOnErrorMeas
datatype dMode = dOnError | dOnMeas
datatype iAwMode = iAwCondition | iAwClamp | iAwOff

type_synonym addr = nat
type_synonym heap = "addr \<Rightarrow> real"
type_synonym 'w tGetTimeMicros = "'w \<Rightarrow> 32 word"

text \<open>The member \<^verbatim>\<open>_getMicros\<close> is called \<open>m_getMicros\<close> here; \<open>None\<close> is \<^verbatim>\<open>NULL\<close>.\<close>

record 'w QuickPID =
  dispKp :: real
  dispKi :: real
  dispKd :: real
  pTerm :: real
  iTerm :: real
  dTerm :: real
  kp :: real
  ki :: real
  kd :: real
  myInput :: addr
  myOutput :: addr
  mySetpoint :: addr
  m_getMicros :: "'w tGetTimeMicros option"
  mode :: Control
  action :: Action
  pmode :: pMode
  dmode :: dMode
  iawmode :: iAwMode
  sampleTimeUs :: "32 word"
  lastTime :: "32 word"
  outputSum :: real
  outMin :: real
  outMax :: real
  error :: real
  lastError :: real
  lastInput :: real

subsection \<open>Status functions\<close>

definition GetMode :: "'w QuickPID \<Rightarrow> 8 word" where
  "GetMode s = (case mode s of manual \<Rightarrow> 0 | automatic \<Rightarrow> 1 | timer \<Rightarrow> 2)"

definition GetKp :: "'w QuickPID \<Rightarrow> real" where
  "GetKp s = dispKp s"

definition GetKi :: "'w QuickPID \<Rightarrow> real" where
  "GetKi s = dispKi s"

definition GetKd :: "'w QuickPID \<Rightarrow> real" where
  "GetKd s = dispKd s"

definition GetPterm :: "'w QuickPID \<Rightarrow> real" where
  "GetPterm s = pTerm s"

definition GetIterm :: "'w QuickPID \<Rightarrow> real" where
  "GetIterm s = iTerm s"

definition GetDterm :: "'w QuickPID \<Rightarrow> real" where
  "GetDterm s = dTerm s"

subsection \<open>Setters\<close>

text \<open>
  \<^verbatim>\<open>SetTunings\<close> with six arguments. \<^verbatim>\<open>(float)sampleTimeUs / 1000000\<close> is the sample
  period in seconds.
\<close>

definition SetTunings ::
  "real \<Rightarrow> real \<Rightarrow> real \<Rightarrow> pMode \<Rightarrow> dMode \<Rightarrow> iAwMode \<Rightarrow> 'w QuickPID \<Rightarrow> 'w QuickPID" where
  "SetTunings Kp Ki Kd pM dM awM s =
     (if Kp < 0 \<or> Ki < 0 \<or> Kd < 0 then s
      else
        let SampleTimeSec = real (unat (sampleTimeUs s)) / 1000000
        in s\<lparr>pmode := pM, dmode := dM, iawmode := awM,
             dispKp := Kp, dispKi := Ki, dispKd := Kd,
             kp := Kp, ki := Ki * SampleTimeSec, kd := Kd / SampleTimeSec\<rparr>)"

text \<open>The overload with three arguments reuses the remembered mode selections.\<close>

definition SetTunings3 :: "real \<Rightarrow> real \<Rightarrow> real \<Rightarrow> 'w QuickPID \<Rightarrow> 'w QuickPID" where
  "SetTunings3 Kp Ki Kd s = SetTunings Kp Ki Kd (pmode s) (dmode s) (iawmode s) s"

definition SetSampleTimeUs :: "32 word \<Rightarrow> 'w QuickPID \<Rightarrow> 'w QuickPID" where
  "SetSampleTimeUs NewSampleTimeUs s =
     (if 0 < NewSampleTimeUs then
        let ratio = real (unat NewSampleTimeUs) / real (unat (sampleTimeUs s))
        in s\<lparr>ki := ki s * ratio, kd := kd s / ratio, sampleTimeUs := NewSampleTimeUs\<rparr>
      else s)"

text \<open>\<^verbatim>\<open>SetOutputLimits\<close> writes through \<^verbatim>\<open>myOutput\<close> when the controller is not manual.\<close>

definition SetOutputLimits ::
  "real \<Rightarrow> real \<Rightarrow> 'w QuickPID \<Rightarrow> heap \<Rightarrow> 'w QuickPID \<times> heap" where
  "SetOutputLimits Min' Max' s h =
     (if Min' \<ge> Max' then (s, h)
      else
        let s1 = s\<lparr>outMin := Min', outMax := Max'\<rparr>
        in if mode s1 \<noteq> manual then
             (s1\<lparr>outputSum := CONSTRAIN (outputSum s1) (outMin s1) (outMax s1)\<rparr>,
              h(myOutput s1 := CONSTRAIN (h (myOutput s1)) (outMin s1) (outMax s1)))
           else (s1, h))"

definition SetControllerDirection :: "Action \<Rightarrow> 'w QuickPID \<Rightarrow> 'w QuickPID" where
  "SetControllerDirection Act s = s\<lparr>action := Act\<rparr>"

definition SetProportionalMode :: "pMode \<Rightarrow> 'w QuickPID \<Rightarrow> 'w QuickPID" where
  "SetProportionalMode pM s = s\<lparr>pmode := pM\<rparr>"

definition SetDerivativeMode :: "dMode \<Rightarrow> 'w QuickPID \<Rightarrow> 'w QuickPID" where
  "SetDerivativeMode dM s = s\<lparr>dmode := dM\<rparr>"

definition SetAntiWindupMode :: "iAwMode \<Rightarrow> 'w QuickPID \<Rightarrow> 'w QuickPID" where
  "SetAntiWindupMode awM s = s\<lparr>iawmode := awM\<rparr>"

subsection \<open>Mode changes\<close>

definition Initialize :: "'w QuickPID \<Rightarrow> heap \<Rightarrow> 'w QuickPID" where
  "Initialize s h =
     (let s1 = s\<lparr>outputSum := h (myOutput s)\<rparr>;
          s2 = s1\<lparr>lastInput := h (myInput s1)\<rparr>
      in s2\<lparr>outputSum := CONSTRAIN (outputSum s2) (outMin s2) (outMax s2)\<rparr>)"

text \<open>
  \<^verbatim>\<open>SetMode\<close>: the member \<^verbatim>\<open>_getMicros\<close> is assigned \<^verbatim>\<open>NULL\<close>, whatever the argument
  \<open>getMicros\<close> is, and tested right after. \<open>w\<close> is the outside world at the call.
\<close>

definition SetMode ::
  "'w \<Rightarrow> Control \<Rightarrow> 'w tGetTimeMicros option \<Rightarrow> 'w QuickPID \<Rightarrow> heap \<Rightarrow> 'w QuickPID" where
  "SetMode w Mode getMicros s h =
     (let s1 = (if mode s = manual \<and> Mode \<noteq> manual then Initialize s h else s);
          s2 = s1\<lparr>mode := Mode\<rparr>;
          s3 = s2\<lparr>m_getMicros := None\<rparr>
      in case m_getMicros s3 of
           None \<Rightarrow> s3
         | Some f \<Rightarrow> s3\<lparr>lastTime := f w - sampleTimeUs s3\<rparr>)"

subsection \<open>Constructor\<close>

text \<open>
  \<open>raw\<close> is the memory of the object before construction. The default member
  initialisers of the header run first, then the constructor body.
\<close>

definition QuickPID_ctor ::
  "'w \<Rightarrow> 'w QuickPID \<Rightarrow> addr \<Rightarrow> addr \<Rightarrow> addr \<Rightarrow> real \<Rightarrow> real \<Rightarrow> real \<Rightarrow>
   pMode \<Rightarrow> dMode \<Rightarrow> iAwMode \<Rightarrow> Action \<Rightarrow> 'w tGetTimeMicros option \<Rightarrow> heap \<Rightarrow>
   'w QuickPID \<times> heap" where
  "QuickPID_ctor w raw Input Output Setpoint Kp Ki Kd pM dM awM Act getMicros h =
     (let s0 = raw\<lparr>dispKp := 0, dispKi := 0, dispKd := 0, mode := manual, action := direct,
                  pmode := pOnError, dmode := dOnMeas, iawmode := iAwCondition\<rparr>;
          s1 = s0\<lparr>myOutput := Output, myInput := Input, mySetpoint := Setpoint,
                  mode := manual, m_getMicros := getMicros\<rparr>;
          (s2, h2) = SetOutputLimits 0 255 s1 h;
          s3 = s2\<lparr>sampleTimeUs := 100000\<rparr>;
          s4 = SetControllerDirection Act s3;
          s5 = SetTunings Kp Ki Kd pM dM awM s4
      in case m_getMicros s5 of
           None \<Rightarrow> (s5, h2)
         | Some f \<Rightarrow> (s5\<lparr>lastTime := f w - sampleTimeUs s5\<rparr>, h2))"

subsection \<open>Compute\<close>

text \<open>
  The block of \<^verbatim>\<open>Compute\<close> that runs when the gate is open; \<open>now\<close> is the value of the
  local of that name when the block is entered.
\<close>

definition Compute_block :: "32 word \<Rightarrow> 'w QuickPID \<Rightarrow> heap \<Rightarrow> 'w QuickPID \<times> heap" where
  "Compute_block now s h =
     (let input = h (myInput s);
          dInput = (if action s = reverse then - (input - lastInput s) else input - lastInput s);
          err = (if action s = reverse then - (h (mySetpoint s) - input)
                 else h (mySetpoint s) - input);
          dError = err - lastError s;
          peTerm = (if pmode s = pOnError then kp s * err
                    else if pmode s = pOnMeas then 0
                    else kp s * err * 0.5);
          pmTerm = (if pmode s = pOnError then 0
                    else if pmode s = pOnMeas then kp s * dInput
                    else kp s * dInput * 0.5);
          iTerm0 = ki s * err;
          dT = (if dmode s = dOnError then kd s * dError else - kd s * dInput);
          iT = (if iawmode s = iAwCondition then
                  let iTermOut = (peTerm - pmTerm) + ki s * (iTerm0 + err);
                      aw = (if iTermOut > outMax s \<and> dError > 0 then True
                            else if iTermOut < outMin s \<and> dError < 0 then True
                            else False)
                  in if aw \<and> ki s \<noteq> 0 then CONSTRAIN iTermOut (- outMax s) (outMax s)
                     else iTerm0
                else iTerm0);
          oSum = (if iawmode s = iAwOff then outputSum s + iT - pmTerm
                  else CONSTRAIN (outputSum s + iT - pmTerm) (outMin s) (outMax s));
          out = CONSTRAIN (oSum + peTerm + dT) (outMin s) (outMax s)
      in (s\<lparr>error := err, pTerm := peTerm - pmTerm, iTerm := iT, dTerm := dT,
            outputSum := oSum, lastError := err, lastInput := input, lastTime := now\<rparr>,
          h(myOutput s := out)))"

text \<open>
  \<^verbatim>\<open>Compute\<close>: \<open>w\<close> is the outside world at the call and \<open>now0\<close> the indeterminate
  initial value of the local \<^verbatim>\<open>now\<close>, which is only assigned in automatic mode with a
  clock.
\<close>

definition Compute ::
  "'w \<Rightarrow> 32 word \<Rightarrow> 'w QuickPID \<Rightarrow> heap \<Rightarrow> bool \<times> 'w QuickPID \<times> heap" where
  "Compute w now0 s h =
     (if mode s = manual then (False, s, h)
      else
        let (now, timeChange) =
              (case m_getMicros s of
                 Some f \<Rightarrow> if mode s = automatic then (f w, f w - lastTime s) else (now0, 0)
               | None \<Rightarrow> (now0, 0))
        in if mode s = timer \<or> timeChange \<ge> sampleTimeUs s
           then (True, Compute_block now s h)
           else (False, s, h))"

subsection \<open>A concrete controller\<close>

text \<open>
  The outside world of the examples is the number of microseconds since start-up, and
  the clock reads its low 32 bits. The caller's cells are the input at address 0, the
  output at address 1 and the setpoint at address 2; the input and output hold 10.
  \<open>example_raw\<close> is one possible content of the object's memory before construction.
\<close>

definition example_clock :: "nat tGetTimeMicros" where
  "example_clock = (\<lambda>w. of_nat w)"

definition example_raw :: "nat QuickPID" where
  "example_raw =
     \<lparr>dispKp = 0, dispKi = 0, dispKd = 0, pTerm = 0, iTerm = 0, dTerm = 0,
      kp = 0, ki = 0, kd = 0, myInput = 0, myOutput = 0, mySetpoint = 0,
      m_getMicros = None, mode = manual, action = direct, pmode = pOnError,
      dmode = dOnMeas, iawmode = iAwCondition, sampleTimeUs = 0, lastTime = 0,
      outputSum = 0, outMin = 0, outMax = 0, error = 0, lastError = 0, lastInput = 0\<rparr>"

definition example_cells :: "real \<Rightarrow> heap" where
  "example_cells sp = (\<lambda>a. 0)(0 := 10, 1 := 10, 2 := sp)"

text \<open>The controller constructed with Kp = 2, Ki = 5, Kd = 1 and the default modes.\<close>

definition example_pid :: "nat tGetTimeMicros option \<Rightarrow> nat QuickPID" where
  "example_pid getMicros =
     fst (QuickPID_ctor 0 example_raw 0 1 2 2 5 1 pOnError dOnMeas iAwCondition direct
            getMicros (example_cells 20))"

text \<open>
  The same controller activated into timer mode with the setpoint cell at 210: the
  error of the next cycle is 200 and grows, so the conditional anti-windup engages.
\<close>

definition windup_cells :: heap where
  "windup_cells = example_cells 210"

definition windup_pid :: "nat QuickPID" where
  "windup_pid = SetMode 0 timer None (example_pid None) windup_cells"

section \<open>Properties\<close>

subsection \<open>Auxiliary facts\<close>

lemma CONSTRAIN_min_max: "CONSTRAIN x a b = min (max x a) b"
  by (simp add: CONSTRAIN_def MIN_macro_def MAX_macro_def min_def max_def)

lemma CONSTRAIN_in_range: "a \<le> b \<Longrightarrow> a \<le> CONSTRAIN x a b \<and> CONSTRAIN x a b \<le> b"
  by (simp add: CONSTRAIN_min_max)

lemma example_pid_eq:
  "example_pid g =
     \<lparr>dispKp = 2, dispKi = 5, dispKd = 1, pTerm = 0, iTerm = 0, dTerm = 0,
      kp = 2, ki = 1/2, kd = 10, myInput = 0, myOutput = 1, mySetpoint = 2,
      m_getMicros = g, mode = manual, action = direct, pmode = pOnError,
      dmode = dOnMeas, iawmode = iAwCondition, sampleTimeUs = 100000,
      lastTime = (case g of None \<Rightarrow> 0 | Some f \<Rightarrow> f 0 - 100000),
      outputSum = 0, outMin = 0, outMax = 255, error = 0, lastError = 0, lastInput = 0\<rparr>"
  by (simp add: example_pid_def QuickPID_ctor_def example_raw_def SetOutputLimits_def
      SetControllerDirection_def SetTunings_def Let_def split: option.split)

lemma unat_real_pos: "0 < (x::32 word) \<Longrightarrow> 0 < real (unat x)"
  using unat_gt_0 [of x] by (simp add: word_greater_zero_iff del: of_nat_unat)

lemma SetMode_eq:
  "SetMode w M g s h =
     (if mode s = manual \<and> M \<noteq> manual
      then s\<lparr>outputSum := CONSTRAIN (h (myOutput s)) (outMin s) (outMax s),
             lastInput := h (myInput s), mode := M, m_getMicros := None\<rparr>
      else s\<lparr>mode := M, m_getMicros := None\<rparr>)"
  by (simp add: SetMode_def Initialize_def Let_def)

lemma example_activated:
  "SetMode w M g (example_pid g') (example_cells sp) =
     (if M = manual then (example_pid g')\<lparr>m_getMicros := None\<rparr>
      else (example_pid g')\<lparr>outputSum := 10, lastInput := 10, mode := M, m_getMicros := None\<rparr>)"
  by (simp add: SetMode_eq example_pid_eq example_cells_def CONSTRAIN_min_max)

lemma Compute_timer: "mode s = timer \<Longrightarrow> Compute w now0 s h = (True, Compute_block now0 s h)"
  by (simp add: Compute_def split: option.split)

lemma Compute_manual: "mode s = manual \<Longrightarrow> Compute w now0 s h = (False, s, h)"
  by (simp add: Compute_def)

lemma Compute_no_clock:
  "mode s = automatic \<Longrightarrow> m_getMicros s = None \<Longrightarrow> sampleTimeUs s \<noteq> 0 \<Longrightarrow>
   Compute w now0 s h = (False, s, h)"
  by (simp add: Compute_def)

subsection \<open>The concrete scenario\<close>

text \<open>
  Claim C1. In the scenario state (timer mode, direct action, proportional on error,
  derivative on measurement, conditional anti-windup, Kp = 2, Ki = 5, Kd = 1 scaled for
  a sample period of 100000 microseconds, output limits 0 and 255, \<open>outputSum = 10\<close>,
  \<open>lastInput = 10\<close>, \<open>lastError = 0\<close>, input cell 10, setpoint cell 20), one call of
  \<open>Compute\<close> returns true and writes 35 to the output cell and to no other cell; the
  terms reported afterwards are 20, 5 and 0, and the accumulator is 15.
\<close>

theorem C1_scenario_compute:
  assumes "mode s = timer" and "action s = direct" and "pmode s = pOnError"
    and "dmode s = dOnMeas" and "iawmode s = iAwCondition"
    and "dispKp s = 2" and "dispKi s = 5" and "dispKd s = 1"
    and "sampleTimeUs s = 100000"
    and "kp s = dispKp s"
    and "ki s = dispKi s * (real (unat (sampleTimeUs s)) / 1000000)"
    and "kd s = dispKd s / (real (unat (sampleTimeUs s)) / 1000000)"
    and "outMin s = 0" and "outMax s = 255"
    and "outputSum s = 10" and "lastInput s = 10" and "lastError s = 0"
    and "h (myInput s) = 10" and "h (mySetpoint s) = 20"
  shows "fst (Compute w now0 s h) = True \<and>
         snd (snd (Compute w now0 s h)) = h(myOutput s := 35) \<and>
         GetPterm (fst (snd (Compute w now0 s h))) = 20 \<and>
         GetIterm (fst (snd (Compute w now0 s h))) = 5 \<and>
         GetDterm (fst (snd (Compute w now0 s h))) = 0 \<and>
         outputSum (fst (snd (Compute w now0 s h))) = 15"
proof -
  have gains: "kp s = 2" "ki s = 1 / 2" "kd s = 10"
    using assms(6-12) by simp_all
  have blk: "Compute_block now0 s h =
      (s\<lparr>error := 10, pTerm := 20, iTerm := 5, dTerm := 0, outputSum := 15,
         lastError := 10, lastInput := 10, lastTime := now0\<rparr>, h(myOutput s := 35))"
    unfolding Compute_block_def Let_def
    by (simp add: gains assms(2-5) assms(13-19) CONSTRAIN_min_max)
  show ?thesis
    by (simp add: Compute_timer [OF assms(1)] blk GetPterm_def GetIterm_def GetDterm_def)
qed

theorem C1_scenario_compute_witness:
  "fst (Compute 0 0 (SetMode 0 timer None (example_pid None) (example_cells 20))
          (example_cells 20)) = True \<and>
   snd (snd (Compute 0 0 (SetMode 0 timer None (example_pid None) (example_cells 20))
          (example_cells 20))) = (example_cells 20)(1 := 35)"
proof -
  let ?s = "SetMode 0 timer None (example_pid None) (example_cells 20)"
  have s: "?s = (example_pid None)\<lparr>outputSum := 10, lastInput := 10, mode := timer,
                                     m_getMicros := None\<rparr>"
    by (simp add: example_activated)
  have "fst (Compute 0 0 ?s (example_cells 20)) = True \<and>
        snd (snd (Compute 0 0 ?s (example_cells 20))) = (example_cells 20)(myOutput ?s := 35)"
    using C1_scenario_compute [of ?s "example_cells 20" 0 0]
    unfolding s by (simp add: example_pid_eq example_cells_def)
  then show ?thesis unfolding s by (simp add: example_pid_eq)
qed

subsection \<open>Rejected arguments\<close>

text \<open>
  Claim C4. \<open>SetTunings\<close> (either overload) with a negative Kp, Ki or Kd,
  \<open>SetSampleTimeUs\<close> with the period 0 (the only non-positive \<^verbatim>\<open>uint32_t\<close>) and
  \<open>SetOutputLimits\<close> with \<open>Min \<ge> Max\<close> return the controller, every member of it,
  and the cells exactly as they were; nothing is raised.
\<close>

theorem C4_rejected_setters_are_noops:
  "(Kp < 0 \<or> Ki < 0 \<or> Kd < 0 \<longrightarrow>
      SetTunings Kp Ki Kd pM dM awM s = s \<and> SetTunings3 Kp Ki Kd s = s) \<and>
   SetSampleTimeUs 0 s = s \<and>
   (Min' \<ge> Max' \<longrightarrow> SetOutputLimits Min' Max' s h = (s, h))"
  by (simp add: SetTunings_def SetTunings3_def SetSampleTimeUs_def SetOutputLimits_def)

theorem C4_rejected_setters_are_noops_witness:
  "(-1 :: real) < 0 \<and> (5 :: real) \<ge> 5 \<and>
   SetTunings (-1) 5 1 pOnMeas dOnError iAwOff (example_pid None) = example_pid None \<and>
   SetTunings3 (-1) 5 1 (example_pid None) = example_pid None \<and>
   SetSampleTimeUs 0 (example_pid None) = example_pid None \<and>
   SetOutputLimits 5 5 (example_pid None) (example_cells 20) =
     (example_pid None, example_cells 20)"
  using C4_rejected_setters_are_noops
    [of "-1" 5 1 pOnMeas dOnError iAwOff "example_pid None" 5 5 "example_cells 20"]
  by simp

subsection \<open>Compute without a new output\<close>

text \<open>
  Claim C6. In manual mode \<open>Compute\<close> returns false, whatever the clock, the time and
  the cells are; and whenever \<open>Compute\<close> returns false, the controller and the cells
  are exactly as before the call.
\<close>

theorem C6_compute_false_is_noop:
  "(mode s = manual \<longrightarrow> fst (Compute w now0 s h) = False) \<and>
   (fst (Compute w now0 s h) = False \<longrightarrow> snd (Compute w now0 s h) = (s, h))"
  by (simp add: Compute_def Let_def split: option.split prod.split)

theorem C6_compute_false_is_noop_witness:
  "mode (example_pid (Some example_clock)) = manual \<and>
   fst (Compute 500000 7 (example_pid (Some example_clock)) (example_cells 20)) = False \<and>
   snd (Compute 500000 7 (example_pid (Some example_clock)) (example_cells 20)) =
     (example_pid (Some example_clock), example_cells 20)"
proof -
  have m: "mode (example_pid (Some example_clock)) = manual"
    by (simp add: example_pid_eq)
  show ?thesis
    using C6_compute_false_is_noop
      [of "example_pid (Some example_clock)" 500000 7 "example_cells 20"] m
    by simp
qed

subsection \<open>Scaling of the gains\<close>

text \<open>
  Claim C7. For Kp, Ki, Kd \<open>\<ge> 0\<close> and a stored sample period above 0, with
  \<open>T = sampleTimeUs / 1000000\<close> the period in seconds (which is then positive): after
  \<open>SetTunings\<close> (either overload) the display gains are the arguments, and
  \<open>kp = Kp\<close>, \<open>ki = Ki * T\<close>, \<open>kd = Kd / T\<close>.
\<close>

theorem C7_SetTunings_scaling:
  assumes "0 \<le> Kp" and "0 \<le> Ki" and "0 \<le> Kd" and "0 < sampleTimeUs s"
  shows "0 < real (unat (sampleTimeUs s)) / 1000000 \<and>
         GetKp (SetTunings Kp Ki Kd pM dM awM s) = Kp \<and>
         GetKi (SetTunings Kp Ki Kd pM dM awM s) = Ki \<and>
         GetKd (SetTunings Kp Ki Kd pM dM awM s) = Kd \<and>
         kp (SetTunings Kp Ki Kd pM dM awM s) = Kp \<and>
         ki (SetTunings Kp Ki Kd pM dM awM s) = Ki * (real (unat (sampleTimeUs s)) / 1000000) \<and>
         kd (SetTunings Kp Ki Kd pM dM awM s) = Kd / (real (unat (sampleTimeUs s)) / 1000000) \<and>
         GetKp (SetTunings3 Kp Ki Kd s) = Kp \<and>
         GetKi (SetTunings3 Kp Ki Kd s) = Ki \<and>
         GetKd (SetTunings3 Kp Ki Kd s) = Kd \<and>
         kp (SetTunings3 Kp Ki Kd s) = Kp \<and>
         ki (SetTunings3 Kp Ki Kd s) = Ki * (real (unat (sampleTimeUs s)) / 1000000) \<and>
         kd (SetTunings3 Kp Ki Kd s) = Kd / (real (unat (sampleTimeUs s)) / 1000000)"
proof -
  have "0 < real (unat (sampleTimeUs s))"
    using assms(4) by (rule unat_real_pos)
  then have T: "0 < real (unat (sampleTimeUs s)) / 1000000"
    by simp
  have ok: "\<not> (Kp < 0 \<or> Ki < 0 \<or> Kd < 0)"
    using assms(1-3) by simp
  show ?thesis
    using T ok
    by (simp add: SetTunings_def SetTunings3_def Let_def GetKp_def GetKi_def GetKd_def
        del: of_nat_unat)
qed

theorem C7_SetTunings_scaling_witness:
  "(0 :: real) \<le> 3 \<and> (0 :: real) \<le> 4 \<and> (0 :: real) \<le> 6 \<and>
   0 < sampleTimeUs (example_pid None) \<and>
   GetKi (SetTunings 3 4 6 pOnMeas dOnError iAwClamp (example_pid None)) = 4 \<and>
   kp (SetTunings 3 4 6 pOnMeas dOnError iAwClamp (example_pid None)) = 3 \<and>
   ki (SetTunings 3 4 6 pOnMeas dOnError iAwClamp (example_pid None)) = 2 / 5 \<and>
   kd (SetTunings 3 4 6 pOnMeas dOnError iAwClamp (example_pid None)) = 60"
proof -
  have p: "0 < sampleTimeUs (example_pid None)"
    by (simp add: example_pid_eq)
  have v: "real (unat (sampleTimeUs (example_pid None))) / 1000000 = 1 / 10"
    by (simp add: example_pid_eq)
  show ?thesis
    using C7_SetTunings_scaling [of 3 4 6 "example_pid None" pOnMeas dOnError iAwClamp] p
    unfolding v by simp
qed

text \<open>
  Claim C8. With a stored sample period above 0 and a new period \<open>T2\<close> above 0,
  \<open>SetSampleTimeUs T2\<close> multiplies \<open>ki\<close> by the (positive) ratio of the new period to
  the old one, divides \<open>kd\<close> by it and stores \<open>T2\<close>; every other member, among them the
  accumulator, the display gains and \<open>kp\<close>, keeps its value.
\<close>

theorem C8_SetSampleTimeUs_rescales:
  assumes "0 < sampleTimeUs s" and "0 < T2"
  shows "0 < real (unat T2) / real (unat (sampleTimeUs s)) \<and>
         SetSampleTimeUs T2 s =
           s\<lparr>ki := ki s * (real (unat T2) / real (unat (sampleTimeUs s))),
             kd := kd s / (real (unat T2) / real (unat (sampleTimeUs s))),
             sampleTimeUs := T2\<rparr> \<and>
         outputSum (SetSampleTimeUs T2 s) = outputSum s \<and>
         GetKp (SetSampleTimeUs T2 s) = GetKp s \<and>
         GetKi (SetSampleTimeUs T2 s) = GetKi s \<and>
         GetKd (SetSampleTimeUs T2 s) = GetKd s \<and>
         kp (SetSampleTimeUs T2 s) = kp s"
proof -
  have "0 < real (unat T2)" and "0 < real (unat (sampleTimeUs s))"
    using assms by (simp_all only: unat_real_pos)
  then have r: "0 < real (unat T2) / real (unat (sampleTimeUs s))"
    by simp
  have eq: "SetSampleTimeUs T2 s =
           s\<lparr>ki := ki s * (real (unat T2) / real (unat (sampleTimeUs s))),
             kd := kd s / (real (unat T2) / real (unat (sampleTimeUs s))),
             sampleTimeUs := T2\<rparr>"
    using assms(2) by (simp add: SetSampleTimeUs_def Let_def del: of_nat_unat)
  show ?thesis
    using r by (simp add: eq GetKp_def GetKi_def GetKd_def del: of_nat_unat)
qed

theorem C8_SetSampleTimeUs_rescales_witness:
  "0 < sampleTimeUs (example_pid None) \<and> (0 :: 32 word) < 200000 \<and>
   ki (example_pid None) = 1 / 2 \<and> kd (example_pid None) = 10 \<and>
   ki (SetSampleTimeUs 200000 (example_pid None)) = 1 \<and>
   kd (SetSampleTimeUs 200000 (example_pid None)) = 5 \<and>
   sampleTimeUs (SetSampleTimeUs 200000 (example_pid None)) = 200000 \<and>
   kp (SetSampleTimeUs 200000 (example_pid None)) = 2"
proof -
  have p: "0 < sampleTimeUs (example_pid None)" "(0 :: 32 word) < 200000"
    by (simp_all add: example_pid_eq)
  have v: "real (unat (200000 :: 32 word)) / real (unat (sampleTimeUs (example_pid None))) = 2"
    by (simp add: example_pid_eq)
  have "SetSampleTimeUs 200000 (example_pid None) =
          (example_pid None)\<lparr>ki := ki (example_pid None) * 2, kd := kd (example_pid None) / 2,
                              sampleTimeUs := 200000\<rparr>"
    using C8_SetSampleTimeUs_rescales [of "example_pid None" 200000] p
    unfolding v by simp
  then show ?thesis
    by (simp add: example_pid_eq)
qed

subsection \<open>Activation\<close>

text \<open>
  Claim C5. A \<open>SetMode\<close> call that leaves manual mode for automatic or timer mode sets
  the accumulator to the value of the output cell clamped to the output limits and
  \<open>lastInput\<close> to the value of the input cell. Any other \<open>SetMode\<close> call (between
  automatic and timer, or into manual) initialises nothing: it stores the mode and
  clears the clock member, and that is all.
\<close>

theorem C5_SetMode_bumpless:
  "(mode s = manual \<and> M \<noteq> manual \<longrightarrow>
      outputSum (SetMode w M g s h) = min (max (h (myOutput s)) (outMin s)) (outMax s) \<and>
      lastInput (SetMode w M g s h) = h (myInput s)) \<and>
   (mode s \<noteq> manual \<or> M = manual \<longrightarrow>
      SetMode w M g s h = s\<lparr>mode := M, m_getMicros := None\<rparr> \<and>
      outputSum (SetMode w M g s h) = outputSum s \<and>
      lastInput (SetMode w M g s h) = lastInput s)"
  by (simp add: SetMode_eq CONSTRAIN_min_max)

theorem C5_SetMode_bumpless_witness:
  "mode (example_pid None) = manual \<and> timer \<noteq> manual \<and>
   outputSum (SetMode 0 timer None (example_pid None) ((example_cells 20)(1 := 300))) = 255 \<and>
   lastInput (SetMode 0 timer None (example_pid None) ((example_cells 20)(1 := 300))) = 10 \<and>
   mode ((example_pid None)\<lparr>mode := timer\<rparr>) \<noteq> manual \<and>
   outputSum (SetMode 0 automatic None ((example_pid None)\<lparr>mode := timer\<rparr>)
                ((example_cells 20)(1 := 300))) = 0 \<and>
   lastInput (SetMode 0 automatic None ((example_pid None)\<lparr>mode := timer\<rparr>)
                ((example_cells 20)(1 := 300))) = 0"
proof -
  have m: "mode (example_pid None) = manual"
    by (simp add: example_pid_eq)
  have v: "myOutput (example_pid None) = 1" "myInput (example_pid None) = 0"
    "outMin (example_pid None) = 0" "outMax (example_pid None) = 255"
    "outputSum (example_pid None) = 0" "lastInput (example_pid None) = 0"
    by (simp_all add: example_pid_eq)
  have a: "outputSum (SetMode 0 timer None (example_pid None) ((example_cells 20)(1 := 300))) = 255 \<and>
           lastInput (SetMode 0 timer None (example_pid None) ((example_cells 20)(1 := 300))) = 10"
    using C5_SetMode_bumpless
      [of "example_pid None" timer 0 None "(example_cells 20)(1 := 300)"] m
    by (simp add: v example_cells_def)
  have b: "outputSum (SetMode 0 automatic None ((example_pid None)\<lparr>mode := timer\<rparr>)
                ((example_cells 20)(1 := 300))) = 0 \<and>
           lastInput (SetMode 0 automatic None ((example_pid None)\<lparr>mode := timer\<rparr>)
                ((example_cells 20)(1 := 300))) = 0"
    using C5_SetMode_bumpless
      [of "(example_pid None)\<lparr>mode := timer\<rparr>" automatic 0 None "(example_cells 20)(1 := 300)"]
    by (simp add: v)
  show ?thesis
    using a b m by simp
qed

lemma QuickPID_ctor_lastError:
  "lastError (fst (QuickPID_ctor w raw Input Output Setpoint Kp Ki Kd pM dM awM Act gm h)) =
     lastError raw"
  by (simp add: QuickPID_ctor_def SetOutputLimits_def SetControllerDirection_def
      SetTunings_def Let_def split: option.split)

text \<open>
  Claim C9. The initialisation done on activation assigns the accumulator and
  \<open>lastInput\<close> and nothing else; the \<open>SetMode\<close> call around it adds only the mode and
  the cleared clock member. So \<open>lastError\<close> and the stored terms survive activation,
  the constructor leaves \<open>lastError\<close> at whatever the object's memory held, and the
  first computation after an activation into timer mode takes its error difference
  against the \<open>lastError\<close> from before the activation (seen in the derivative term when
  the derivative is on error).
\<close>

theorem C9_activation_frame:
  assumes "mode s = manual" and "M \<noteq> manual"
  shows "Initialize s h =
           s\<lparr>outputSum := CONSTRAIN (h (myOutput s)) (outMin s) (outMax s),
             lastInput := h (myInput s)\<rparr> \<and>
         SetMode w M g s h = (Initialize s h)\<lparr>mode := M, m_getMicros := None\<rparr> \<and>
         lastError (SetMode w M g s h) = lastError s \<and>
         GetPterm (SetMode w M g s h) = GetPterm s \<and>
         GetIterm (SetMode w M g s h) = GetIterm s \<and>
         GetDterm (SetMode w M g s h) = GetDterm s \<and>
         lastError (fst (QuickPID_ctor wc raw Input Output Setpoint Kp Ki Kd pM dM awM Act gm hc)) =
           lastError raw \<and>
         (M = timer \<and> dmode s = dOnError \<longrightarrow>
            fst (Compute w' now0 (SetMode w M g s h) h) = True \<and>
            GetDterm (fst (snd (Compute w' now0 (SetMode w M g s h) h))) =
              kd s * (error (fst (snd (Compute w' now0 (SetMode w M g s h) h))) - lastError s))"
proof -
  have i: "Initialize s h =
           s\<lparr>outputSum := CONSTRAIN (h (myOutput s)) (outMin s) (outMax s),
             lastInput := h (myInput s)\<rparr>"
    by (simp add: Initialize_def Let_def)
  have m: "SetMode w M g s h =
           s\<lparr>outputSum := CONSTRAIN (h (myOutput s)) (outMin s) (outMax s),
             lastInput := h (myInput s), mode := M, m_getMicros := None\<rparr>"
    using assms by (simp add: SetMode_eq)
  have c: "M = timer \<and> dmode s = dOnError \<longrightarrow>
            fst (Compute w' now0 (SetMode w M g s h) h) = True \<and>
            GetDterm (fst (snd (Compute w' now0 (SetMode w M g s h) h))) =
              kd s * (error (fst (snd (Compute w' now0 (SetMode w M g s h) h))) - lastError s)"
  proof (intro impI, elim conjE)
    assume t: "M = timer" and d: "dmode s = dOnError"
    have mt: "mode (SetMode w M g s h) = timer"
      unfolding m by (simp add: t)
    show "fst (Compute w' now0 (SetMode w M g s h) h) = True \<and>
            GetDterm (fst (snd (Compute w' now0 (SetMode w M g s h) h))) =
              kd s * (error (fst (snd (Compute w' now0 (SetMode w M g s h) h))) - lastError s)"
      unfolding Compute_timer [OF mt]
      by (simp add: m d Compute_block_def Let_def GetDterm_def)
  qed
  show ?thesis
    using c by (simp add: i m QuickPID_ctor_lastError GetPterm_def GetIterm_def GetDterm_def)
qed

theorem C9_activation_frame_witness:
  "mode ((example_pid None)\<lparr>lastError := 7, iTerm := 2, dmode := dOnError\<rparr>) = manual \<and>
   timer \<noteq> manual \<and>
   dmode ((example_pid None)\<lparr>lastError := 7, iTerm := 2, dmode := dOnError\<rparr>) = dOnError \<and>
   lastError (SetMode 0 timer None
      ((example_pid None)\<lparr>lastError := 7, iTerm := 2, dmode := dOnError\<rparr>)
      (example_cells 20)) = 7 \<and>
   GetIterm (SetMode 0 timer None
      ((example_pid None)\<lparr>lastError := 7, iTerm := 2, dmode := dOnError\<rparr>)
      (example_cells 20)) = 2 \<and>
   fst (Compute 0 0 (SetMode 0 timer None
      ((example_pid None)\<lparr>lastError := 7, iTerm := 2, dmode := dOnError\<rparr>)
      (example_cells 20)) (example_cells 20)) = True \<and>
   GetDterm (fst (snd (Compute 0 0 (SetMode 0 timer None
      ((example_pid None)\<lparr>lastError := 7, iTerm := 2, dmode := dOnError\<rparr>)
      (example_cells 20)) (example_cells 20)))) =
     10 * (error (fst (snd (Compute 0 0 (SetMode 0 timer None
      ((example_pid None)\<lparr>lastError := 7, iTerm := 2, dmode := dOnError\<rparr>)
      (example_cells 20)) (example_cells 20)))) - 7)"
proof -
  let ?s = "(example_pid None)\<lparr>lastError := 7, iTerm := 2, dmode := dOnError\<rparr>"
  let ?a = "SetMode 0 timer None ?s (example_cells 20)"
  have m: "mode ?s = manual" and d: "dmode ?s = dOnError"
    and v: "lastError ?s = 7" "GetIterm ?s = 2" "kd ?s = 10"
    by (simp_all add: example_pid_eq GetIterm_def)
  have t: "timer \<noteq> manual"
    by simp
  note th = C9_activation_frame [where s = ?s and M = timer and h = "example_cells 20"
        and w = 0 and g = None and wc = 0 and raw = example_raw and Input = 0 and Output = 1
        and Setpoint = 2 and Kp = 2 and Ki = 5 and Kd = 1 and pM = pOnError and dM = dOnMeas
        and awM = iAwCondition and Act = direct and gm = None and hc = "example_cells 20"
        and w' = 0 and ?now0.0 = 0, OF m t]
  have e: "lastError ?a = lastError ?s" and i: "GetIterm ?a = GetIterm ?s"
    using th by blast+
  have c: "fst (Compute 0 0 ?a (example_cells 20)) = True \<and>
           GetDterm (fst (snd (Compute 0 0 ?a (example_cells 20)))) =
             kd ?s * (error (fst (snd (Compute 0 0 ?a (example_cells 20)))) - lastError ?s)"
    using th d by blast
  show ?thesis
    using m d t e i c unfolding v by simp
qed

subsection \<open>Conditional anti-windup\<close>

lemma Compute_True:
  "fst (Compute w now0 s h) = True \<Longrightarrow> \<exists>now. Compute w now0 s h = (True, Compute_block now s h)"
  by (cases "mode s"; cases "m_getMicros s") (auto simp: Compute_def split: if_splits)

lemma aw_flag: "(if A then True else if B then True else False) = (A \<or> B)"
  by simp

lemma Compute_block_antiwindup:
  assumes "iawmode s = iAwCondition"
  shows
   "(let input = h (myInput s);
         dInput = (if action s = reverse then - (input - lastInput s) else input - lastInput s);
         err = (if action s = reverse then - (h (mySetpoint s) - input)
                else h (mySetpoint s) - input);
         dError = err - lastError s;
         peTerm = (if pmode s = pOnError then kp s * err
                   else if pmode s = pOnMeas then 0
                   else kp s * err * 0.5);
         pmTerm = (if pmode s = pOnError then 0
                   else if pmode s = pOnMeas then kp s * dInput
                   else kp s * dInput * 0.5);
         iTermOut = (peTerm - pmTerm) + ki s * (ki s * err + err);
         s' = fst (Compute_block now s h)
     in GetIterm s' =
          (if ((iTermOut > outMax s \<and> dError > 0) \<or> (iTermOut < outMin s \<and> dError < 0)) \<and>
              ki s \<noteq> 0
           then min (max iTermOut (- outMax s)) (outMax s)
           else ki s * err) \<and>
        outputSum s' = min (max (outputSum s + GetIterm s' - pmTerm) (outMin s)) (outMax s))"
proof -
  define input where "input = h (myInput s)"
  define dInput where
    "dInput = (if action s = reverse then - (input - lastInput s) else input - lastInput s)"
  define err where
    "err = (if action s = reverse then - (h (mySetpoint s) - input)
            else h (mySetpoint s) - input)"
  define dError where "dError = err - lastError s"
  define peTerm where
    "peTerm = (if pmode s = pOnError then kp s * err
               else if pmode s = pOnMeas then 0
               else kp s * err * 0.5)"
  define pmTerm where
    "pmTerm = (if pmode s = pOnError then 0
               else if pmode s = pOnMeas then kp s * dInput
               else kp s * dInput * 0.5)"
  define iTermOut where "iTermOut = (peTerm - pmTerm) + ki s * (ki s * err + err)"
  define iT where
    "iT = (if iawmode s = iAwCondition then
             if (if iTermOut > outMax s \<and> dError > 0 then True
                 else if iTermOut < outMin s \<and> dError < 0 then True
                 else False) \<and> ki s \<noteq> 0
             then CONSTRAIN iTermOut (- outMax s) (outMax s)
             else ki s * err
           else ki s * err)"
  define oSum where
    "oSum = (if iawmode s = iAwOff then outputSum s + iT - pmTerm
             else CONSTRAIN (outputSum s + iT - pmTerm) (outMin s) (outMax s))"
  define dT where "dT = (if dmode s = dOnError then kd s * dError else - kd s * dInput)"
  note defs = input_def dInput_def err_def dError_def peTerm_def pmTerm_def iTermOut_def
    iT_def oSum_def dT_def
  have blk: "Compute_block now s h =
      (s\<lparr>error := err, pTerm := peTerm - pmTerm, iTerm := iT, dTerm := dT,
            outputSum := oSum, lastError := err, lastInput := input, lastTime := now\<rparr>,
       h(myOutput s := CONSTRAIN (oSum + peTerm + dT) (outMin s) (outMax s)))"
    unfolding Compute_block_def Let_def defs by (rule refl)
  have i: "GetIterm (fst (Compute_block now s h)) = iT"
    and o: "outputSum (fst (Compute_block now s h)) = oSum"
    by (simp_all add: blk GetIterm_def)
  have iT: "iT = (if ((iTermOut > outMax s \<and> dError > 0) \<or> (iTermOut < outMin s \<and> dError < 0)) \<and>
              ki s \<noteq> 0
           then min (max iTermOut (- outMax s)) (outMax s)
           else ki s * err)"
    unfolding iT_def aw_flag CONSTRAIN_min_max using assms by simp
  have oSum: "oSum = min (max (outputSum s + iT - pmTerm) (outMin s)) (outMax s)"
    unfolding oSum_def CONSTRAIN_min_max using assms by simp
  have "GetIterm (fst (Compute_block now s h)) =
          (if ((iTermOut > outMax s \<and> dError > 0) \<or> (iTermOut < outMin s \<and> dError < 0)) \<and>
              ki s \<noteq> 0
           then min (max iTermOut (- outMax s)) (outMax s)
           else ki s * err) \<and>
        outputSum (fst (Compute_block now s h)) =
          min (max (outputSum s + GetIterm (fst (Compute_block now s h)) - pmTerm)
                (outMin s)) (outMax s)"
    unfolding i o using iT oSum by simp
  then show ?thesis
    unfolding Let_def input_def dInput_def err_def dError_def peTerm_def pmTerm_def iTermOut_def .
qed

lemma windup_pid_eq:
  "windup_pid =
     \<lparr>dispKp = 2, dispKi = 5, dispKd = 1, pTerm = 0, iTerm = 0, dTerm = 0,
      kp = 2, ki = 1/2, kd = 10, myInput = 0, myOutput = 1, mySetpoint = 2,
      m_getMicros = None, mode = timer, action = direct, pmode = pOnError,
      dmode = dOnMeas, iawmode = iAwCondition, sampleTimeUs = 100000, lastTime = 0,
      outputSum = 10, outMin = 0, outMax = 255, error = 0, lastError = 0, lastInput = 10\<rparr>"
  by (simp add: windup_pid_def windup_cells_def example_activated) (simp add: example_pid_eq)

lemma windup_Compute:
  "Compute 0 0 windup_pid windup_cells =
     (True,
      windup_pid\<lparr>error := 200, pTerm := 400, iTerm := 255, dTerm := 0, outputSum := 255,
                 lastError := 200, lastInput := 10, lastTime := 0\<rparr>,
      windup_cells(1 := 255))"
proof -
  have m: "mode windup_pid = timer"
    by (simp add: windup_pid_eq)
  show ?thesis
    unfolding Compute_timer [OF m] Compute_block_def Let_def
    by (simp add: windup_pid_eq windup_cells_def example_cells_def CONSTRAIN_min_max)
qed

text \<open>
  Claim C3, as the code has it. In a cycle of \<open>Compute\<close> that produces an output, with
  the anti-windup mode conditional and
  \<open>iTermOut = (peTerm - pmTerm) + ki * (ki * error + error)\<close>: if \<open>iTermOut > outMax\<close>
  with \<open>dError > 0\<close>, or \<open>iTermOut < outMin\<close> with \<open>dError < 0\<close>, and \<open>ki \<noteq> 0\<close>, then the
  integral term reported by \<open>GetIterm\<close> is \<open>iTermOut\<close> clamped between \<open>- outMax\<close> and
  \<open>outMax\<close>; otherwise it is \<open>ki * error\<close>. That term is what the accumulator receives
  before the measurement part is taken off and the sum is clamped to the output limits.
\<close>

theorem C3_conditional_antiwindup:
  assumes "fst (Compute w now0 s h) = True" and "iawmode s = iAwCondition"
  shows
   "(let input = h (myInput s);
         dInput = (if action s = reverse then - (input - lastInput s) else input - lastInput s);
         err = (if action s = reverse then - (h (mySetpoint s) - input)
                else h (mySetpoint s) - input);
         dError = err - lastError s;
         peTerm = (if pmode s = pOnError then kp s * err
                   else if pmode s = pOnMeas then 0
                   else kp s * err * 0.5);
         pmTerm = (if pmode s = pOnError then 0
                   else if pmode s = pOnMeas then kp s * dInput
                   else kp s * dInput * 0.5);
         iTermOut = (peTerm - pmTerm) + ki s * (ki s * err + err);
         s' = fst (snd (Compute w now0 s h))
     in GetIterm s' =
          (if ((iTermOut > outMax s \<and> dError > 0) \<or> (iTermOut < outMin s \<and> dError < 0)) \<and>
              ki s \<noteq> 0
           then min (max iTermOut (- outMax s)) (outMax s)
           else ki s * err) \<and>
        outputSum s' = min (max (outputSum s + GetIterm s' - pmTerm) (outMin s)) (outMax s))"
proof -
  obtain now where c: "Compute w now0 s h = (True, Compute_block now s h)"
    using Compute_True [OF assms(1)] by blast
  show ?thesis
    unfolding c snd_conv by (rule Compute_block_antiwindup [OF assms(2)])
qed

theorem C3_conditional_antiwindup_witness:
  "fst (Compute 0 0 windup_pid windup_cells) = True \<and> iawmode windup_pid = iAwCondition \<and>
   GetIterm (fst (snd (Compute 0 0 windup_pid windup_cells))) = min (max 550 (- 255)) 255 \<and>
   outputSum (fst (snd (Compute 0 0 windup_pid windup_cells))) = 255"
proof -
  have a: "fst (Compute 0 0 windup_pid windup_cells) = True"
    by (simp add: windup_Compute)
  have b: "iawmode windup_pid = iAwCondition"
    by (simp add: windup_pid_eq)
  have v: "windup_cells (myInput windup_pid) = 10" "windup_cells (mySetpoint windup_pid) = 210"
    "action windup_pid = direct" "pmode windup_pid = pOnError" "kp windup_pid = 2"
    "ki windup_pid = 1 / 2" "lastError windup_pid = 0" "lastInput windup_pid = 10"
    "outMax windup_pid = 255" "outMin windup_pid = 0" "outputSum windup_pid = 10"
    by (simp_all add: windup_pid_eq windup_cells_def example_cells_def)
  have "GetIterm (fst (snd (Compute 0 0 windup_pid windup_cells))) = min (max 550 (- 255)) 255 \<and>
        outputSum (fst (snd (Compute 0 0 windup_pid windup_cells))) =
          min (max (10 + GetIterm (fst (snd (Compute 0 0 windup_pid windup_cells))) - 0) 0) 255"
    using C3_conditional_antiwindup [OF a b]
    unfolding Let_def v by simp
  then show ?thesis
    using a b by simp
qed

text \<open>
  The claim as written takes the clamp of the prior integral term \<open>ki * error\<close>. In the
  wind-up example the error is 200 with \<open>lastError = 0\<close>, \<open>iTermOut = 550\<close> exceeds
  \<open>outMax = 255\<close> and \<open>ki = 1/2\<close>; the prior integral term is 100, which the clamp would
  leave at 100, but the program reports 255.
\<close>

theorem C3_counterexample:
  "fst (Compute 0 0 windup_pid windup_cells) = True \<and>
   iawmode windup_pid = iAwCondition \<and>
   windup_cells (mySetpoint windup_pid) - windup_cells (myInput windup_pid) = 200 \<and>
   lastError windup_pid = 0 \<and>
   (kp windup_pid * 200 - 0) + ki windup_pid * (ki windup_pid * 200 + 200) = 550 \<and>
   outMax windup_pid = 255 \<and>
   ki windup_pid \<noteq> 0 \<and>
   min (max (ki windup_pid * 200) (- outMax windup_pid)) (outMax windup_pid) = 100 \<and>
   GetIterm (fst (snd (Compute 0 0 windup_pid windup_cells))) = 255 \<and>
   GetIterm (fst (snd (Compute 0 0 windup_pid windup_cells))) \<noteq>
     min (max (ki windup_pid * 200) (- outMax windup_pid)) (outMax windup_pid)"
proof -
  have v: "windup_cells (myInput windup_pid) = 10" "windup_cells (mySetpoint windup_pid) = 210"
    "kp windup_pid = 2" "ki windup_pid = 1 / 2" "lastError windup_pid = 0"
    "outMax windup_pid = 255" "iawmode windup_pid = iAwCondition"
    by (simp_all add: windup_pid_eq windup_cells_def example_cells_def)
  have r: "GetIterm (fst (snd (Compute 0 0 windup_pid windup_cells))) = 255"
    by (simp add: windup_Compute GetIterm_def)
  show ?thesis
    unfolding r v by (simp add: windup_Compute)
qed

subsection \<open>The clock member\<close>

lemma SetMode_clock:
  "m_getMicros (SetMode w M g s h) = None \<and> lastTime (SetMode w M g s h) = lastTime s \<and>
   mode (SetMode w M g s h) = M \<and> sampleTimeUs (SetMode w M g s h) = sampleTimeUs s"
  by (simp add: SetMode_eq)

lemma QuickPID_ctor_clock:
  "m_getMicros (fst (QuickPID_ctor w raw Input Output Setpoint Kp Ki Kd pM dM awM Act
       (Some f) h)) = Some f \<and>
   sampleTimeUs (fst (QuickPID_ctor w raw Input Output Setpoint Kp Ki Kd pM dM awM Act
       (Some f) h)) = 100000 \<and>
   lastTime (fst (QuickPID_ctor w raw Input Output Setpoint Kp Ki Kd pM dM awM Act
       (Some f) h)) = f w - 100000"
  by (simp add: QuickPID_ctor_def SetOutputLimits_def SetControllerDirection_def
      SetTunings_def Let_def)

lemma Compute_after_SetMode_automatic:
  "sampleTimeUs s \<noteq> 0 \<Longrightarrow>
   Compute w' now0 (SetMode w automatic g s h) h' = (False, SetMode w automatic g s h, h')"
  by (rule Compute_no_clock) (simp_all add: SetMode_clock)

text \<open>
  What the gate of \<open>Compute\<close> does for a controller that is in automatic mode and does
  hold a clock: with \<open>lastTime\<close> one sample period before an earlier reading, it opens
  as long as the counter has not come within one period of wrapping around since.
\<close>

lemma Compute_gate_with_clock:
  assumes "mode s = automatic" and "m_getMicros s = Some f"
    and "lastTime s = f wc - sampleTimeUs s"
    and "unat (f w - f wc) + unat (sampleTimeUs s) < 2 ^ 32"
  shows "Compute w now0 s h = (True, Compute_block (f w) s h)"
proof -
  have e: "f w - lastTime s = (f w - f wc) + sampleTimeUs s"
    by (simp add: assms(3))
  have "unat ((f w - f wc) + sampleTimeUs s) = unat (f w - f wc) + unat (sampleTimeUs s)"
    using assms(4) by (simp add: unat_add_lem [THEN iffD1])
  then have "sampleTimeUs s \<le> f w - lastTime s"
    unfolding e by (simp add: word_le_nat_alt)
  then show ?thesis
    by (simp add: Compute_def assms(1,2))
qed

text \<open>
  Claim C2 asks that a clock passed to \<open>SetMode\<close>, or configured at construction, is
  held by the controller after the call. The program assigns \<^verbatim>\<open>NULL\<close> to the member
  instead of the argument: the controller constructed with the example clock holds it,
  and holds none after \<open>SetMode\<close> is called with that same clock; a controller
  constructed without a clock holds none after being given one through \<open>SetMode\<close>.
\<close>

theorem C2_SetMode_discards_clock:
  "m_getMicros (example_pid (Some example_clock)) = Some example_clock \<and>
   m_getMicros (SetMode 0 automatic (Some example_clock) (example_pid (Some example_clock))
                  (example_cells 20)) = None \<and>
   m_getMicros (SetMode 0 automatic (Some example_clock) (example_pid None)
                  (example_cells 20)) = None"
  by (simp add: SetMode_clock) (simp add: example_pid_eq)

text \<open>
  Claim C10 asks that, after construction with a clock, the first \<open>Compute\<close> in
  automatic mode finds a full sample period elapsed and computes at once. The
  constructor does set \<open>lastTime\<close> one period before the reading of the clock, but
  automatic mode is only entered through \<open>SetMode\<close>, which drops the clock: the first
  \<open>Compute\<close> in automatic mode returns false, right away and one period later alike.
\<close>

theorem C10_first_compute_after_construction:
  "m_getMicros (example_pid (Some example_clock)) = Some example_clock \<and>
   lastTime (example_pid (Some example_clock)) =
     example_clock 0 - sampleTimeUs (example_pid (Some example_clock)) \<and>
   fst (Compute 0 0
          (SetMode 0 automatic (Some example_clock) (example_pid (Some example_clock))
             (example_cells 20))
          (example_cells 20)) = False \<and>
   fst (Compute 100000 0
          (SetMode 0 automatic (Some example_clock) (example_pid (Some example_clock))
             (example_cells 20))
          (example_cells 20)) = False"
proof -
  have p: "sampleTimeUs (example_pid (Some example_clock)) \<noteq> 0"
    by (simp add: example_pid_eq)
  have "m_getMicros (example_pid (Some example_clock)) = Some example_clock"
    and "lastTime (example_pid (Some example_clock)) =
           example_clock 0 - sampleTimeUs (example_pid (Some example_clock))"
    by (simp_all add: example_pid_eq)
  then show ?thesis
    by (simp add: Compute_after_SetMode_automatic [OF p])
qed

end
